theory Spec2Isabelle
  imports Main "HOL-Library.AList" "HOL-Library.Sublist"
begin

section \<open>The NLP engine provider of guardian-analyzer\<close>

text \<open>
  A shallow embedding of \<^verbatim>\<open>guardian_analyzer/nlp_engine/nlp_engine_provider.py\<close>:
  the class \<^verbatim>\<open>NlpEngineProvider\<close> with its constructor, \<^verbatim>\<open>create_engine\<close>,
  \<^verbatim>\<open>_read_nlp_conf\<close> and \<^verbatim>\<open>_get_full_conf_path\<close>. Exceptions are values of a sum
  type, and everything a function does besides returning (file access, logging, calls into
  an engine class) is recorded, in order, in a list of events returned with the result.
\<close>

subsection \<open>Python values\<close>

text \<open>
  The configuration is a Python \<^verbatim>\<open>dict\<close>, given inline or produced by
  \<^verbatim>\<open>yaml.safe_load\<close>. Its values are modelled by the fragment below: \<^verbatim>\<open>None\<close>,
  booleans, integers, strings, lists, and dicts with string keys (an association list in
  insertion order, keys distinct). Floats and other YAML scalars are left out.
\<close>

datatype pyval =
    PNone
  | PBool bool
  | PInt int
  | PStr string
  | PList "pyval list"
  | PDict "(string \<times> pyval) list"

text \<open>Truth value testing, as \<^verbatim>\<open>if x:\<close> and \<^verbatim>\<open>not x\<close> do it.\<close>

fun truthy :: "pyval \<Rightarrow> bool" where
  "truthy PNone = False"
| "truthy (PBool b) = b"
| "truthy (PInt i) = (i \<noteq> 0)"
| "truthy (PStr s) = (s \<noteq> [])"
| "truthy (PList xs) = (xs \<noteq> [])"
| "truthy (PDict kvs) = (kvs \<noteq> [])"

text \<open>
  The exceptions that occur. \<open>OtherError cls msg\<close> stands for an exception of any
  class \<open>cls\<close> that is none of the four named ones nor a subclass of \<^verbatim>\<open>KeyError\<close>.
\<close>

datatype py_exception =
    ValueError string
  | KeyError string
  | TypeError string
  | AttributeError string
  | OtherError string string

fun type_name :: "pyval \<Rightarrow> string" where
  "type_name PNone = ''NoneType''"
| "type_name (PBool b) = ''bool''"
| "type_name (PInt i) = ''int''"
| "type_name (PStr s) = ''str''"
| "type_name (PList xs) = ''list''"
| "type_name (PDict kvs) = ''dict''"

definition quoted :: "string \<Rightarrow> string" where
  "quoted s = [CHR 0x27] @ s @ [CHR 0x27]"

text \<open>\<^verbatim>\<open>d.get(k)\<close>: only a dict has the method; a missing key gives \<^verbatim>\<open>None\<close>.\<close>

fun py_get :: "pyval \<Rightarrow> string \<Rightarrow> py_exception + pyval" where
  "py_get (PDict kvs) k = Inr (case map_of kvs k of None \<Rightarrow> PNone | Some v \<Rightarrow> v)"
| "py_get v k =
     Inl (AttributeError (quoted (type_name v) @ '' object has no attribute '' @ quoted ''get''))"

text \<open>\<^verbatim>\<open>d[k]\<close> with a string \<open>k\<close>, on a value that passed \<^verbatim>\<open>d.get(k)\<close>, hence a dict.\<close>

fun py_getitem :: "pyval \<Rightarrow> string \<Rightarrow> py_exception + pyval" where
  "py_getitem (PDict kvs) k =
     (case map_of kvs k of None \<Rightarrow> Inl (KeyError k) | Some v \<Rightarrow> Inr v)"
| "py_getitem v k = Inl (TypeError (quoted (type_name v) @ '' object is not subscriptable''))"

text \<open>\<^verbatim>\<open>k in c\<close> for a string \<open>k\<close>: key of a dict, element of a list, substring of a string.\<close>

fun py_contains :: "string \<Rightarrow> pyval \<Rightarrow> py_exception + bool" where
  "py_contains k (PDict kvs) = Inr (k \<in> set (map fst kvs))"
| "py_contains k (PList xs) = Inr (PStr k \<in> set xs)"
| "py_contains k (PStr s) = Inr (sublist k s)"
| "py_contains k v =
     Inl (TypeError (''argument of type '' @ quoted (type_name v) @ '' is not iterable''))"

text \<open>\<^verbatim>\<open>str(x)\<close> of the hashable values, as an f-string renders them.\<close>

fun digit_char :: "nat \<Rightarrow> char" where
  "digit_char n = char_of (48 + n)"

fun str_nat :: "nat \<Rightarrow> string" where
  "str_nat n = (if n < 10 then [digit_char n] else str_nat (n div 10) @ [digit_char (n mod 10)])"

declare str_nat.simps [simp del]

definition str_int :: "int \<Rightarrow> string" where
  "str_int i = (if i < 0 then CHR ''-'' # str_nat (nat (- i)) else str_nat (nat i))"

datatype hashable = HNone | HBool bool | HInt int | HStr string

fun str_of :: "hashable \<Rightarrow> string" where
  "str_of HNone = ''None''"
| "str_of (HBool b) = (if b then ''True'' else ''False'')"
| "str_of (HInt i) = str_int i"
| "str_of (HStr s) = s"

text \<open>Hashing, as a dict lookup does it first: lists and dicts are unhashable.\<close>

fun py_hash :: "pyval \<Rightarrow> py_exception + hashable" where
  "py_hash PNone = Inr HNone"
| "py_hash (PBool b) = Inr (HBool b)"
| "py_hash (PInt i) = Inr (HInt i)"
| "py_hash (PStr s) = Inr (HStr s)"
| "py_hash v = Inl (TypeError (''unhashable type: '' @ quoted (type_name v)))"

subsection \<open>Engine classes, paths and the outside world\<close>

text \<open>
  What \<^verbatim>\<open>NerModelConfiguration.from_dict\<close> returns is of type \<open>'n\<close>; an engine
  constructor is passed either that or the raw value found in the configuration.
\<close>

datatype 'n ner_arg = NerRaw pyval | NerParsed 'n

text \<open>
  An engine class, as the provider uses one: the class attributes \<^verbatim>\<open>engine_name\<close> and
  \<^verbatim>\<open>is_available\<close>, the constructor called with \<^verbatim>\<open>models\<close> and
  \<^verbatim>\<open>ner_model_configuration\<close>, \<^verbatim>\<open>load()\<close>, which mutates the instance, and
  \<^verbatim>\<open>nlp.keys()\<close> of a loaded instance. \<open>'e\<close> is the type of instances.
\<close>

record ('e, 'n) engine_class =
  engine_name :: string
  is_available :: bool
  construct :: "pyval \<Rightarrow> 'n ner_arg \<Rightarrow> py_exception + 'e"
  load :: "'e \<Rightarrow> py_exception + 'e"
  nlp_keys :: "'e \<Rightarrow> py_exception + string list"

text \<open>
  The argument \<^verbatim>\<open>conf_file\<close> is a \<^verbatim>\<open>str\<close> or a \<^verbatim>\<open>pathlib.Path\<close>, the latter given
  by its parts. An empty string is false; a \<^verbatim>\<open>Path\<close> object is always true.
\<close>

datatype conf_file = StrPath string | PathObj "string list"

fun conf_file_truthy :: "conf_file option \<Rightarrow> bool" where
  "conf_file_truthy None = False"
| "conf_file_truthy (Some (StrPath s)) = (s \<noteq> [])"
| "conf_file_truthy (Some (PathObj ps)) = True"

text \<open>
  The file system and the YAML parser: whether a file is at the path; the error, if any,
  that looking the path up fails with; and what \<^verbatim>\<open>open(conf_file)\<close> followed by
  \<^verbatim>\<open>yaml.safe_load\<close> gives.
\<close>

record world =
  file_present :: "conf_file \<Rightarrow> bool"
  exists_error :: "conf_file \<Rightarrow> py_exception option"
  safe_load :: "conf_file \<Rightarrow> py_exception + pyval"

text \<open>
  \<^verbatim>\<open>Path(conf_file).exists()\<close> returns whether a file is there, unless the lookup fails
  with an \<^verbatim>\<open>OSError\<close> other than the not-found kinds (a name too long for the file system,
  a directory that may not be searched), which it raises.
\<close>

definition Path_exists :: "world \<Rightarrow> conf_file \<Rightarrow> py_exception + bool" where
  "Path_exists w conf_file =
     (case exists_error w conf_file of
        Some e \<Rightarrow> Inl e
      | None \<Rightarrow> Inr (file_present w conf_file))"

text \<open>
  What the module imports and does not define: the three built-in engine classes,
  \<^verbatim>\<open>NerModelConfiguration.from_dict\<close>, and the parts of the module's \<^verbatim>\<open>__file__\<close>.
\<close>

record ('e, 'n) module_imports =
  SpacyNlpEngine :: "('e, 'n) engine_class"
  StanzaNlpEngine :: "('e, 'n) engine_class"
  TransformersNlpEngine :: "('e, 'n) engine_class"
  from_dict :: "pyval \<Rightarrow> py_exception + 'n"
  module_file :: "string list"

subsection \<open>Events and results\<close>

datatype log_level = Debug | Info | Warning

datatype log_record =
    LoadedEngines "string list"
  | ReadingDefaultConf conf_file
  | ConfFileNotFound conf_file pyval
  | MissingNerConf
  | CreatedEngine string "string list"

datatype 'n event =
    Log log_level log_record
  | PathExists conf_file
  | OpenFile conf_file
  | Construct string pyval "'n ner_arg"
  | Load string

type_synonym ('n, 'a) run = "'n event list \<times> (py_exception + 'a)"

definition ret :: "'a \<Rightarrow> ('n, 'a) run" where
  "ret x = ([], Inr x)"

definition raise :: "py_exception \<Rightarrow> ('n, 'a) run" where
  "raise e = ([], Inl e)"

definition emit :: "'n event \<Rightarrow> ('n, unit) run" where
  "emit ev = ([ev], Inr ())"

definition lift :: "py_exception + 'a \<Rightarrow> ('n, 'a) run" where
  "lift r = ([], r)"

text \<open>Sequencing: the events of both parts in order; an exception ends the run.\<close>

definition and_then :: "('n, 'a) run \<Rightarrow> ('a \<Rightarrow> ('n, 'b) run) \<Rightarrow> ('n, 'b) run" where
  "and_then m f =
     (case m of
        (t, Inl e) \<Rightarrow> (t, Inl e)
      | (t, Inr x) \<Rightarrow> (case f x of (t', r) \<Rightarrow> (t @ t', r)))"

subsection \<open>The provider\<close>

text \<open>
  The attributes of an \<^verbatim>\<open>NlpEngineProvider\<close>: the registry \<^verbatim>\<open>self.nlp_engines\<close>, a dict
  from engine name to engine class, and \<^verbatim>\<open>self.nlp_configuration\<close>, which is \<open>None\<close>
  here when the constructor has assigned nothing to the attribute.
\<close>

record ('e, 'n) provider =
  nlp_engines :: "(string \<times> ('e, 'n) engine_class) list"
  nlp_configuration :: "pyval option"

text \<open>
  The dict comprehension of the constructor: the available candidates, in order, each
  stored under its name; storing under a name already present replaces the class and keeps
  the key's position, which is what \<open>AList.update\<close> does.
\<close>

definition build_registry ::
  "('e, 'n) engine_class list \<Rightarrow> (string \<times> ('e, 'n) engine_class) list" where
  "build_registry engines =
     foldl (\<lambda>d engine. AList.update (engine_name engine) engine d) []
       (filter is_available engines)"

text \<open>The messages of the four \<^verbatim>\<open>ValueError\<close>s the class raises.\<close>

definition conflicting_sources :: py_exception where
  "conflicting_sources =
     ValueError ''Either conf_file or nlp_configuration should be provided, not both.''"

definition illegal_configuration :: py_exception where
  "illegal_configuration =
     ValueError (''Illegal nlp configuration. ''
       @ ''Configuration should include nlp_engine_name and models ''
       @ ''(list of model_name for each lang_code).'')"

definition engine_not_available :: "string \<Rightarrow> py_exception" where
  "engine_not_available name =
     ValueError (''NLP engine '' @ quoted name @ '' is not available. ''
       @ ''Make sure you have all required packages installed'')"

definition wrong_configuration :: py_exception where
  "wrong_configuration = ValueError ''Wrong NLP engine configuration''"

text \<open>The configuration \<^verbatim>\<open>_read_nlp_conf\<close> uses when the file does not exist.\<close>

definition default_configuration :: pyval where
  "default_configuration =
     PDict [(''nlp_engine_name'', PStr ''spacy''),
            (''models'',
             PList [PDict [(''lang_code'', PStr ''en''),
                           (''model_name'', PStr ''en_core_web_lg'')]])]"

text \<open>
  \<^verbatim>\<open>Path.parent\<close> on the parts of a POSIX path, and \<^verbatim>\<open>_get_full_conf_path\<close>, whose
  argument is a single relative component such as its default \<^verbatim>\<open>"default.yaml"\<close>.
\<close>

definition parent :: "string list \<Rightarrow> string list" where
  "parent ps = (if ps = [''/''] then ps else butlast ps)"

definition get_full_conf_path :: "('e, 'n) module_imports \<Rightarrow> string \<Rightarrow> conf_file" where
  "get_full_conf_path imp default_conf_file =
     PathObj (parent (parent (module_file imp)) @ [''conf'', default_conf_file])"

definition read_nlp_conf :: "world \<Rightarrow> conf_file \<Rightarrow> ('n, pyval) run" where
  "read_nlp_conf w conf_file =
     and_then (emit (PathExists conf_file)) (\<lambda>_.
     and_then (lift (Path_exists w conf_file)) (\<lambda>found.
     and_then
       (if \<not> found then
          and_then (emit (Log Warning (ConfFileNotFound conf_file default_configuration)))
            (\<lambda>_. ret default_configuration)
        else
          and_then (emit (OpenFile conf_file)) (\<lambda>_. lift (safe_load w conf_file)))
       (\<lambda>nlp_configuration.
     and_then (lift (py_contains ''ner_model_configuration'' nlp_configuration)) (\<lambda>present.
     and_then (if \<not> present then emit (Log Warning MissingNerConf) else ret ()) (\<lambda>_.
     ret nlp_configuration)))))"

text \<open>
  The candidate engine classes: \<^verbatim>\<open>if not nlp_engines:\<close> replaces \<^verbatim>\<open>None\<close> and
  the empty tuple alike by the three built-in classes.
\<close>

definition candidates ::
  "('e, 'n) module_imports \<Rightarrow> ('e, 'n) engine_class list option \<Rightarrow>
     ('e, 'n) engine_class list" where
  "candidates imp nlp_engines_arg =
     (let builtin = [SpacyNlpEngine imp, StanzaNlpEngine imp, TransformersNlpEngine imp]
      in case nlp_engines_arg of
           None \<Rightarrow> builtin
         | Some es \<Rightarrow> if es = [] then builtin else es)"

text \<open>
  The constructor. Its three assignments to \<^verbatim>\<open>self.nlp_configuration\<close> are guarded by
  three separate tests, so the attribute is threaded through as an option.
\<close>

definition init ::
  "('e, 'n) module_imports \<Rightarrow> world \<Rightarrow> ('e, 'n) engine_class list option \<Rightarrow>
     conf_file option \<Rightarrow> pyval \<Rightarrow> ('n, ('e, 'n) provider) run" where
  "init imp w nlp_engines_arg conf_file nlp_configuration_arg =
     (let registry = build_registry (candidates imp nlp_engines_arg)
      in
      and_then (emit (Log Debug (LoadedEngines (map fst registry)))) (\<lambda>_.
      if conf_file_truthy conf_file \<and> truthy nlp_configuration_arg
      then raise conflicting_sources
      else
        and_then
          (ret (if truthy nlp_configuration_arg then Some nlp_configuration_arg else None))
          (\<lambda>conf1.
        and_then
          (case conf_file of
             None \<Rightarrow> ret conf1
           | Some f \<Rightarrow>
               if conf_file_truthy conf_file
               then and_then (read_nlp_conf w f) (\<lambda>c. ret (Some c))
               else ret conf1)
          (\<lambda>conf2.
        and_then
          (if conf_file = None \<and> nlp_configuration_arg = PNone then
             (let f = get_full_conf_path imp ''default.yaml'' in
              and_then (emit (Log Debug (ReadingDefaultConf f))) (\<lambda>_.
              and_then (read_nlp_conf w f) (\<lambda>c. ret (Some c))))
           else ret conf2)
          (\<lambda>conf3.
        ret \<lparr>nlp_engines = registry, nlp_configuration = conf3\<rparr>)))))"

text \<open>
  Looking a name up in the registry hashes it first; the keys are strings, so no other
  hashable value is among them.
\<close>

fun has_key :: "(string \<times> 'c) list \<Rightarrow> hashable \<Rightarrow> bool" where
  "has_key registry (HStr s) = (map_of registry s \<noteq> None)"
| "has_key registry h = False"

fun registry_getitem :: "(string \<times> 'c) list \<Rightarrow> hashable \<Rightarrow> py_exception + 'c" where
  "registry_getitem registry (HStr s) =
     (case map_of registry s of None \<Rightarrow> Inl (KeyError s) | Some c \<Rightarrow> Inr c)"
| "registry_getitem registry h = Inl (KeyError (str_of h))"

text \<open>
  The value passed as \<^verbatim>\<open>ner_model_configuration\<close>: what \<^verbatim>\<open>get\<close> finds, parsed by
  \<^verbatim>\<open>NerModelConfiguration.from_dict\<close> when it is true.
\<close>

definition ner_argument ::
  "('e, 'n) module_imports \<Rightarrow> pyval \<Rightarrow> py_exception + 'n ner_arg" where
  "ner_argument imp conf =
     (case py_get conf ''ner_model_configuration'' of
        Inl e \<Rightarrow> Inl e
      | Inr ner \<Rightarrow>
          if truthy ner
          then (case from_dict imp ner of Inl e \<Rightarrow> Inl e | Inr n \<Rightarrow> Inr (NerParsed n))
          else Inr (NerRaw ner))"

text \<open>The body of the \<^verbatim>\<open>try\<close> statement of \<^verbatim>\<open>create_engine\<close>.\<close>

definition assemble ::
  "('e, 'n) module_imports \<Rightarrow> (string \<times> ('e, 'n) engine_class) list \<Rightarrow> pyval \<Rightarrow>
     hashable \<Rightarrow> ('n, 'e) run" where
  "assemble imp registry conf nlp_engine_name =
     and_then (lift (registry_getitem registry nlp_engine_name)) (\<lambda>nlp_engine_class.
     and_then (lift (py_getitem conf ''models'')) (\<lambda>nlp_models.
     and_then (lift (ner_argument imp conf)) (\<lambda>ner_model_configuration.
     and_then
       (emit (Construct (engine_name nlp_engine_class) nlp_models ner_model_configuration))
       (\<lambda>_.
     and_then (lift (construct nlp_engine_class nlp_models ner_model_configuration))
       (\<lambda>engine.
     and_then (emit (Load (engine_name nlp_engine_class))) (\<lambda>_.
     and_then (lift (load nlp_engine_class engine)) (\<lambda>loaded.
     and_then (lift (nlp_keys nlp_engine_class loaded)) (\<lambda>keys.
     and_then (emit (Log Info (CreatedEngine (engine_name nlp_engine_class) keys))) (\<lambda>_.
     ret loaded)))))))))"

text \<open>\<^verbatim>\<open>except KeyError: raise ValueError("Wrong NLP engine configuration")\<close>\<close>

fun except_KeyError :: "('n, 'a) run \<Rightarrow> ('n, 'a) run" where
  "except_KeyError (t, Inl (KeyError m)) = (t, Inl wrong_configuration)"
| "except_KeyError r = r"

text \<open>
  The test that opens \<^verbatim>\<open>create_engine\<close>: \<^verbatim>\<open>or\<close> evaluates its operands from the left
  and stops at the first true one.
\<close>

definition illegal :: "pyval \<Rightarrow> py_exception + bool" where
  "illegal conf =
     (if \<not> truthy conf then Inr True
      else case py_get conf ''models'' of
             Inl e \<Rightarrow> Inl e
           | Inr models \<Rightarrow>
               if \<not> truthy models then Inr True
               else case py_get conf ''nlp_engine_name'' of
                      Inl e \<Rightarrow> Inl e
                    | Inr name \<Rightarrow> Inr (\<not> truthy name))"

definition create_engine ::
  "('e, 'n) module_imports \<Rightarrow> ('e, 'n) provider \<Rightarrow> ('n, 'e) run" where
  "create_engine imp self =
     (case nlp_configuration self of
        None \<Rightarrow>
          raise (AttributeError (quoted ''NlpEngineProvider''
            @ '' object has no attribute '' @ quoted ''nlp_configuration''))
      | Some conf \<Rightarrow>
          and_then (lift (illegal conf)) (\<lambda>bad.
          if bad then raise illegal_configuration
          else
            and_then (lift (py_getitem conf ''nlp_engine_name'')) (\<lambda>name.
            and_then (lift (py_hash name)) (\<lambda>nlp_engine_name.
            if \<not> has_key (nlp_engines self) nlp_engine_name
            then raise (engine_not_available (str_of nlp_engine_name))
            else except_KeyError (assemble imp (nlp_engines self) conf nlp_engine_name)))))"

text \<open>\<^verbatim>\<open>NlpEngineProvider(nlp_engines, conf_file, nlp_configuration).create_engine()\<close>\<close>

definition provide ::
  "('e, 'n) module_imports \<Rightarrow> world \<Rightarrow> ('e, 'n) engine_class list option \<Rightarrow>
     conf_file option \<Rightarrow> pyval \<Rightarrow> ('n, 'e) run" where
  "provide imp w nlp_engines_arg conf_file nlp_configuration_arg =
     and_then (init imp w nlp_engines_arg conf_file nlp_configuration_arg) (create_engine imp)"

text \<open>The message of an exception, and whether \<^verbatim>\<open>except KeyError\<close> catches it.\<close>

fun message :: "py_exception \<Rightarrow> string" where
  "message (ValueError m) = m"
| "message (KeyError m) = m"
| "message (TypeError m) = m"
| "message (AttributeError m) = m"
| "message (OtherError c m) = m"

fun is_KeyError :: "py_exception \<Rightarrow> bool" where
  "is_KeyError (KeyError m) = True"
| "is_KeyError e = False"

subsection \<open>Sample engines for the examples\<close>

text \<open>
  An engine class whose instances are the pair of arguments the constructor received,
  with a given \<^verbatim>\<open>load\<close>; a module in which only spaCy is installed, with a given
  \<^verbatim>\<open>from_dict\<close> and a given \<^verbatim>\<open>load\<close> of the spaCy engine; a call that raises; a
  file system without any file; one without any file in which looking up the given paths
  fails with a given error; the configuration of the class's docstring.
\<close>

definition fails :: "py_exception \<Rightarrow> 'a \<Rightarrow> py_exception + 'b" where
  "fails err x = Inl err"

definition sample_engine ::
  "string \<Rightarrow> bool \<Rightarrow> (pyval \<times> pyval ner_arg \<Rightarrow> py_exception + pyval \<times> pyval ner_arg) \<Rightarrow>
     (pyval \<times> pyval ner_arg, pyval) engine_class" where
  "sample_engine name available ld =
     \<lparr>engine_name = name, is_available = available,
      construct = (\<lambda>models ner. Inr (models, ner)),
      load = ld,
      nlp_keys = (\<lambda>e. Inr [''en''])\<rparr>"

definition sample_imports ::
  "(pyval \<Rightarrow> py_exception + pyval) \<Rightarrow>
     (pyval \<times> pyval ner_arg \<Rightarrow> py_exception + pyval \<times> pyval ner_arg) \<Rightarrow>
     (pyval \<times> pyval ner_arg, pyval) module_imports" where
  "sample_imports parse ld =
     \<lparr>SpacyNlpEngine = sample_engine ''spacy'' True ld,
      StanzaNlpEngine = sample_engine ''stanza'' False Inr,
      TransformersNlpEngine = sample_engine ''transformers'' False Inr,
      from_dict = parse,
      module_file = [''/'', ''site'', ''guardian_analyzer'', ''nlp_engine'',
                     ''nlp_engine_provider.py'']\<rparr>"

definition no_files :: world where
  "no_files =
     \<lparr>file_present = (\<lambda>f. False),
      exists_error = (\<lambda>f. None),
      safe_load = (\<lambda>f. Inl (OtherError ''FileNotFoundError'' ''No such file or directory''))\<rparr>"




definition spacy_en :: pyval where
  "spacy_en =
     PList [PDict [(''lang_code'', PStr ''en''), (''model_name'', PStr ''en_core_web_lg'')]]"

definition spacy_conf :: pyval where
  "spacy_conf = PDict [(''nlp_engine_name'', PStr ''spacy''), (''models'', spacy_en)]"

section \<open>Properties\<close>

subsection \<open>Auxiliary facts\<close>

lemmas run_defs = ret_def raise_def emit_def lift_def and_then_def

lemma map_of_foldl_update:
  "map_of (foldl (\<lambda>d e. AList.update (k e) e d) d0 xs) name =
     (case find (\<lambda>e. k e = name) (rev xs) of None \<Rightarrow> map_of d0 name | Some e \<Rightarrow> Some e)"
  by (induction xs rule: rev_induct) (auto simp: update_conv' split: option.splits)

lemma keys_foldl_update:
  "fst ` set (foldl (\<lambda>d e. AList.update (k e) e d) d0 xs) = fst ` set d0 \<union> k ` set xs"
  by (induction xs rule: rev_induct) (auto simp: dom_update)

lemma distinct_foldl_update:
  "distinct (map fst d0) \<Longrightarrow> distinct (map fst (foldl (\<lambda>d e. AList.update (k e) e d) d0 xs))"
  by (induction xs rule: rev_induct) (auto simp: distinct_update)

lemma find_filter: "find P (filter Q xs) = find (\<lambda>x. Q x \<and> P x) xs"
  by (induction xs) auto

lemma find_SomeD: "find P xs = Some x \<Longrightarrow> x \<in> set xs \<and> P x"
  by (induction xs) (auto split: if_splits)

lemma map_of_build_registry:
  "map_of (build_registry es) name =
     find (\<lambda>e. is_available e \<and> engine_name e = name) (rev es)"
  by (simp add: build_registry_def map_of_foldl_update rev_filter find_filter
      split: option.splits)

lemma keys_build_registry:
  "set (map fst (build_registry es)) = engine_name ` {e \<in> set es. is_available e}"
  by (simp add: build_registry_def keys_foldl_update) 

lemma distinct_build_registry: "distinct (map fst (build_registry es))"
  by (simp add: build_registry_def distinct_foldl_update)

lemma init_registry:
  "snd (init imp w es cf c) = Inr p \<Longrightarrow> nlp_engines p = build_registry (candidates imp es)"
  by (auto simp: init_def Let_def run_defs split: prod.splits sum.splits option.splits if_splits)

lemma read_missing:
  "Path_exists w f = Inr False \<Longrightarrow>
   read_nlp_conf w f =
     ([PathExists f, Log Warning (ConfFileNotFound f default_configuration),
       Log Warning MissingNerConf], Inr default_configuration)"
  by (simp add: read_nlp_conf_def run_defs default_configuration_def)



lemma Path_exists_no_files: "Path_exists no_files f = Inr False"
  by (simp add: Path_exists_def no_files_def)

lemma init_inline:
  "c \<noteq> PNone \<Longrightarrow>
   init imp w es None c =
     ([Log Debug (LoadedEngines (map fst (build_registry (candidates imp es))))],
      Inr \<lparr>nlp_engines = build_registry (candidates imp es),
           nlp_configuration = (if truthy c then Some c else None)\<rparr>)"
  by (simp add: init_def Let_def run_defs)


lemma init_file:
  "conf_file_truthy (Some f) \<Longrightarrow> \<not> truthy c \<Longrightarrow>
   init imp w es (Some f) c =
     (case read_nlp_conf w f of (t, r) \<Rightarrow>
       (Log Debug (LoadedEngines (map fst (build_registry (candidates imp es)))) # t,
        case r of Inl e \<Rightarrow> Inl e
        | Inr c \<Rightarrow> Inr \<lparr>nlp_engines = build_registry (candidates imp es),
                         nlp_configuration = Some c\<rparr>))"
  by (simp add: init_def Let_def run_defs split: prod.splits sum.splits)

lemma illegal_cases:
  "illegal conf = Inr False \<Longrightarrow>
   \<exists>kvs m n. conf = PDict kvs \<and> map_of kvs ''models'' = Some m \<and> truthy m \<and>
      map_of kvs ''nlp_engine_name'' = Some n \<and> truthy n"
  by (cases conf) (auto simp: illegal_def split: if_splits option.splits sum.splits)

lemma illegal_Inl: "illegal conf = Inl e \<Longrightarrow> \<exists>m. e = AttributeError m"
  by (cases conf) (auto simp: illegal_def split: if_splits option.splits sum.splits)

lemma except_KeyError_not: "snd (except_KeyError r) \<noteq> Inl (KeyError m)"
  by (cases r rule: except_KeyError.cases) (auto simp: wrong_configuration_def)

lemma py_hash_Inl: "py_hash v = Inl e \<Longrightarrow> \<exists>m. e = TypeError m"
  by (cases v) auto

lemma no_KeyError: "snd (create_engine imp p) \<noteq> Inl (KeyError m)"
proof (cases "nlp_configuration p")
  case None
  then show ?thesis by (simp add: create_engine_def run_defs)
next
  case (Some conf)
  show ?thesis
  proof (cases "illegal conf")
    case (Inl e)
    with Some illegal_Inl [OF Inl] show ?thesis
      by (auto simp: create_engine_def run_defs)
  next
    case (Inr b)
    show ?thesis
    proof (cases b)
      case True
      with Some Inr show ?thesis
        by (simp add: create_engine_def run_defs illegal_configuration_def)
    next
      case False
      with Inr have "illegal conf = Inr False" by simp
      from illegal_cases [OF this] obtain kvs n where
        c: "conf = PDict kvs" "map_of kvs ''nlp_engine_name'' = Some n" by blast
      show ?thesis
      proof (cases "py_hash n")
        case (Inl e)
        with Some Inr False c py_hash_Inl [OF Inl] show ?thesis
          by (auto simp: create_engine_def run_defs)
      next
        case h: (Inr h)
        have "snd (except_KeyError (assemble imp (nlp_engines p) (PDict kvs) h))
                \<noteq> Inl (KeyError m)"
          by (rule except_KeyError_not)
        with Some Inr False c h show ?thesis
          by (auto simp: create_engine_def run_defs engine_not_available_def)
      qed
    qed
  qed
qed

lemmas sample_defs = sample_imports_def sample_engine_def no_files_def spacy_en_def
  spacy_conf_def fails_def candidates_def build_registry_def

text \<open>
  Claim C10. A provider constructed with an empty candidate sequence behaves exactly as
  one constructed without any: the constructor does the same in both cases, and the
  registry of the provider it returns is built from the three built-in classes
  (spaCy, Stanza, Transformers), keeping the available ones, the later one winning under
  a shared name.
\<close>
theorem empty_candidates_use_builtin:
  "init imp w (Some []) cf c = init imp w None cf c \<and>
   (\<forall>p. snd (init imp w (Some []) cf c) = Inr p \<longrightarrow>
      nlp_engines p =
        build_registry [SpacyNlpEngine imp, StanzaNlpEngine imp, TransformersNlpEngine imp] \<and>
      (\<forall>name. map_of (nlp_engines p) name =
         find (\<lambda>e. is_available e \<and> engine_name e = name)
           [TransformersNlpEngine imp, StanzaNlpEngine imp, SpacyNlpEngine imp]))"
proof -
  have c: "candidates imp (Some []) = candidates imp None"
    by (simp add: candidates_def)
  have "init imp w (Some []) cf c = init imp w None cf c"
    by (simp add: init_def c)
  moreover have "nlp_engines p =
        build_registry [SpacyNlpEngine imp, StanzaNlpEngine imp, TransformersNlpEngine imp] \<and>
      (\<forall>name. map_of (nlp_engines p) name =
         find (\<lambda>e. is_available e \<and> engine_name e = name)
           [TransformersNlpEngine imp, StanzaNlpEngine imp, SpacyNlpEngine imp])"
    if "snd (init imp w (Some []) cf c) = Inr p" for p
  proof -
    from init_registry [OF that]
    have r: "nlp_engines p =
        build_registry [SpacyNlpEngine imp, StanzaNlpEngine imp, TransformersNlpEngine imp]"
      by (simp add: candidates_def)
    show ?thesis unfolding r by (simp add: map_of_build_registry)
  qed
  ultimately show ?thesis by blast
qed

theorem empty_candidates_use_builtin_witness:
  "snd (init (sample_imports Inr Inr) no_files (Some []) None spacy_conf) =
     Inr \<lparr>nlp_engines = [(''spacy'', sample_engine ''spacy'' True Inr)],
          nlp_configuration = Some spacy_conf\<rparr> \<and>
   [(''spacy'', sample_engine ''spacy'' True Inr)] =
     build_registry [SpacyNlpEngine (sample_imports Inr Inr),
       StanzaNlpEngine (sample_imports Inr Inr), TransformersNlpEngine (sample_imports Inr Inr)]"
proof -
  have h: "snd (init (sample_imports Inr Inr) no_files (Some []) None spacy_conf) =
     Inr \<lparr>nlp_engines = [(''spacy'', sample_engine ''spacy'' True Inr)],
          nlp_configuration = Some spacy_conf\<rparr>"
    by (simp add: init_inline sample_defs)
  note r = empty_candidates_use_builtin [of "sample_imports Inr Inr" no_files None spacy_conf,
      THEN conjunct2, THEN spec, THEN mp, OF h, THEN conjunct1]
  from r have "[(''spacy'', sample_engine ''spacy'' True Inr)] =
     build_registry [SpacyNlpEngine (sample_imports Inr Inr),
       StanzaNlpEngine (sample_imports Inr Inr), TransformersNlpEngine (sample_imports Inr Inr)]"
    by (simp only: provider.simps)
  with h show ?thesis by (rule conjI)
qed

text \<open>
  Claim C4, for a non-empty candidate sequence (an empty one is replaced by the built-in
  classes, see \<open>registry_of_candidates_counterexample\<close>). The keys of the registry
  are exactly the names of the available candidates, each once; looking a name up gives the
  last available candidate of that name; and every class in the registry is an available
  candidate stored under its own name, so no unavailable candidate has an entry.
\<close>
theorem registry_of_candidates:
  assumes "es \<noteq> []" and "snd (init imp w (Some es) cf c) = Inr p"
  shows "set (map fst (nlp_engines p)) = engine_name ` {e \<in> set es. is_available e} \<and>
         distinct (map fst (nlp_engines p)) \<and>
         (\<forall>name. map_of (nlp_engines p) name =
            find (\<lambda>e. is_available e \<and> engine_name e = name) (rev es)) \<and>
         (\<forall>name e. map_of (nlp_engines p) name = Some e \<longrightarrow>
            e \<in> set es \<and> is_available e \<and> engine_name e = name)"
proof -
  from assms init_registry [OF assms(2)]
  have r: "nlp_engines p = build_registry es"
    by (simp add: candidates_def)
  have a: "set (map fst (nlp_engines p)) = engine_name ` {e \<in> set es. is_available e}"
    unfolding r by (rule keys_build_registry)
  have b: "distinct (map fst (nlp_engines p))"
    unfolding r by (rule distinct_build_registry)
  have c: "\<forall>name. map_of (nlp_engines p) name =
            find (\<lambda>e. is_available e \<and> engine_name e = name) (rev es)"
    unfolding r by (simp add: map_of_build_registry)
  have d: "\<forall>name e. map_of (nlp_engines p) name = Some e \<longrightarrow>
            e \<in> set es \<and> is_available e \<and> engine_name e = name"
  proof (intro allI impI)
    fix name e
    assume "map_of (nlp_engines p) name = Some e"
    with c have "find (\<lambda>e. is_available e \<and> engine_name e = name) (rev es) = Some e"
      by simp
    from find_SomeD [OF this] show "e \<in> set es \<and> is_available e \<and> engine_name e = name"
      by simp
  qed
  show ?thesis by (rule conjI [OF a conjI [OF b conjI [OF c d]]])
qed

theorem registry_of_candidates_witness:
  "[sample_engine ''stanza'' True Inr, sample_engine ''spacy'' False Inr,
    sample_engine ''stanza'' True (fails (KeyError ''en''))] \<noteq> [] \<and>
   snd (init (sample_imports Inr Inr) no_files
      (Some [sample_engine ''stanza'' True Inr, sample_engine ''spacy'' False Inr,
             sample_engine ''stanza'' True (fails (KeyError ''en''))]) None spacy_conf) =
     Inr \<lparr>nlp_engines = [(''stanza'', sample_engine ''stanza'' True (fails (KeyError ''en'')))],
          nlp_configuration = Some spacy_conf\<rparr> \<and>
   set (map fst [(''stanza'', sample_engine ''stanza'' True (fails (KeyError ''en'')))]) =
     engine_name ` {e \<in> set [sample_engine ''stanza'' True Inr, sample_engine ''spacy'' False Inr,
       sample_engine ''stanza'' True (fails (KeyError ''en''))]. is_available e}"
proof -
  let ?es = "[sample_engine ''stanza'' True Inr, sample_engine ''spacy'' False Inr,
    sample_engine ''stanza'' True (fails (KeyError ''en''))]"
  have h: "snd (init (sample_imports Inr Inr) no_files (Some ?es) None spacy_conf) =
     Inr \<lparr>nlp_engines = [(''stanza'', sample_engine ''stanza'' True (fails (KeyError ''en'')))],
          nlp_configuration = Some spacy_conf\<rparr>"
    by (simp add: init_inline sample_defs)
  have n: "?es \<noteq> []" by simp
  note r = registry_of_candidates [OF n h, THEN conjunct1]
  from r have k: "set (map fst [(''stanza'', sample_engine ''stanza'' True (fails (KeyError ''en'')))]) =
     engine_name ` {e \<in> set ?es. is_available e}"
    by (simp only: provider.simps)
  show ?thesis by (rule conjI [OF n conjI [OF h k]])
qed

theorem registry_of_candidates_counterexample:
  "snd (init (sample_imports Inr Inr) no_files (Some []) None spacy_conf) =
     Inr \<lparr>nlp_engines = [(''spacy'', sample_engine ''spacy'' True Inr)],
          nlp_configuration = Some spacy_conf\<rparr>"
  by (simp add: init_inline sample_defs)

lemma illegal_valid:
  "py_get conf ''models'' = Inr m \<Longrightarrow> truthy m \<Longrightarrow>
   py_get conf ''nlp_engine_name'' = Inr n \<Longrightarrow> truthy n \<Longrightarrow>
   illegal conf = Inr False \<and> py_getitem conf ''nlp_engine_name'' = Inr n"
  by (cases conf) (auto simp: illegal_def split: option.splits)

lemma illegal_configuration_raised:
  "nlp_configuration p = Some conf \<Longrightarrow> illegal conf = Inr True \<Longrightarrow>
   create_engine imp p = ([], Inl illegal_configuration)"
  by (simp add: create_engine_def run_defs)

lemma illegal_True_iff:
  "illegal (PDict kvs) = Inr True \<longleftrightarrow>
     kvs = [] \<or>
     (case map_of kvs ''models'' of None \<Rightarrow> True | Some m \<Rightarrow> \<not> truthy m) \<or>
     (case map_of kvs ''nlp_engine_name'' of None \<Rightarrow> True | Some n \<Rightarrow> \<not> truthy n)"
  by (auto simp: illegal_def split: option.splits)

lemma provide_inline:
  "c \<noteq> PNone \<Longrightarrow>
   provide imp w es None c =
     (case create_engine imp \<lparr>nlp_engines = build_registry (candidates imp es),
                               nlp_configuration = (if truthy c then Some c else None)\<rparr> of
        (t, r) \<Rightarrow> (Log Debug (LoadedEngines (map fst (build_registry (candidates imp es)))) # t, r))"
  by (simp add: provide_def init_inline and_then_def split: prod.splits)

lemma sample_registry:
  "build_registry (candidates (sample_imports parse ld) None) =
     [(''spacy'', sample_engine ''spacy'' True ld)]"
  by (simp add: sample_defs)

text \<open>
  Claim C1, for a configuration that passes the validation at the head of
  \<^verbatim>\<open>create_engine\<close> (a configuration without models fails there first, see
  \<open>unknown_engine_counterexample\<close>). When the configuration has true \<^verbatim>\<open>models\<close> and
  a true, hashable \<^verbatim>\<open>nlp_engine_name\<close> that is not a key of the registry,
  \<^verbatim>\<open>create_engine\<close> raises the \<^verbatim>\<open>ValueError\<close> whose message contains the name and
  ends with the hint about required packages, and no event occurs before it: no
  constructor is called.
\<close>
theorem unknown_engine:
  assumes "nlp_configuration p = Some conf"
    and "py_get conf ''models'' = Inr models" and "truthy models"
    and "py_get conf ''nlp_engine_name'' = Inr name" and "truthy name"
    and "py_hash name = Inr h" and "\<not> has_key (nlp_engines p) h"
  shows "create_engine imp p = ([], Inl (engine_not_available (str_of h))) \<and>
         sublist (str_of h) (message (engine_not_available (str_of h))) \<and>
         suffix ''Make sure you have all required packages installed''
           (message (engine_not_available (str_of h)))"
proof -
  from illegal_valid [OF assms(2-5)]
  have v: "illegal conf = Inr False" "py_getitem conf ''nlp_engine_name'' = Inr name"
    by simp_all
  have a: "create_engine imp p = ([], Inl (engine_not_available (str_of h)))"
    using assms(1,6,7) v by (simp add: create_engine_def run_defs)
  have m: "message (engine_not_available (str_of h)) =
      (''NLP engine '' @ [CHR 0x27]) @ str_of h @
      ([CHR 0x27] @ '' is not available. Make sure you have all required packages installed'')"
    by (simp add: engine_not_available_def quoted_def)
  have b: "sublist (str_of h) (message (engine_not_available (str_of h)))"
    unfolding m by (rule sublist_appendI)
  have "message (engine_not_available (str_of h)) =
      (''NLP engine '' @ [CHR 0x27] @ str_of h @ [CHR 0x27] @ '' is not available. '') @
      ''Make sure you have all required packages installed''"
    by (simp add: engine_not_available_def quoted_def)
  then have c: "suffix ''Make sure you have all required packages installed''
           (message (engine_not_available (str_of h)))"
    by (rule suffixI)
  show ?thesis by (rule conjI [OF a conjI [OF b c]])
qed

theorem unknown_engine_witness:
  "create_engine (sample_imports Inr Inr)
     \<lparr>nlp_engines = [(''spacy'', sample_engine ''spacy'' True Inr)],
      nlp_configuration =
        Some (PDict [(''nlp_engine_name'', PStr ''stanza''), (''models'', spacy_en)])\<rparr> =
   ([], Inl (engine_not_available ''stanza''))"
proof -
  let ?conf = "PDict [(''nlp_engine_name'', PStr ''stanza''), (''models'', spacy_en)]"
  let ?p = "\<lparr>nlp_engines = [(''spacy'', sample_engine ''spacy'' True Inr)],
      nlp_configuration = Some ?conf\<rparr>"
  have 1: "nlp_configuration ?p = Some ?conf" by simp
  have 2: "py_get ?conf ''models'' = Inr spacy_en" by simp
  have 3: "truthy spacy_en" by (simp add: spacy_en_def)
  have 4: "py_get ?conf ''nlp_engine_name'' = Inr (PStr ''stanza'')" by simp
  have 5: "truthy (PStr ''stanza'')" by simp
  have 6: "py_hash (PStr ''stanza'') = Inr (HStr ''stanza'')" by simp
  have 7: "\<not> has_key (nlp_engines ?p) (HStr ''stanza'')" by simp
  note r = unknown_engine [OF 1 2 3 4 5 6 7, of "sample_imports Inr Inr", THEN conjunct1]
  then show ?thesis by (simp only: str_of.simps)
qed

theorem unknown_engine_counterexample:
  "provide (sample_imports Inr Inr) no_files None None
     (PDict [(''nlp_engine_name'', PStr ''stanza'')]) =
     ([Log Debug (LoadedEngines [''spacy''])], Inl illegal_configuration) \<and>
   illegal_configuration \<noteq> engine_not_available ''stanza''"
proof -
  have i: "illegal (PDict [(''nlp_engine_name'', PStr ''stanza'')]) = Inr True"
    by (simp add: illegal_def)
  have a: "provide (sample_imports Inr Inr) no_files None None
     (PDict [(''nlp_engine_name'', PStr ''stanza'')]) =
     ([Log Debug (LoadedEngines [''spacy''])], Inl illegal_configuration)"
    by (simp add: provide_inline sample_registry illegal_configuration_raised [OF _ i])
  have b: "illegal_configuration \<noteq> engine_not_available ''stanza''"
    by (simp add: illegal_configuration_def engine_not_available_def quoted_def)
  show ?thesis by (rule conjI [OF a b])
qed

text \<open>
  Claim C2 fails on a provider constructed from the empty inline configuration \<^verbatim>\<open>{}\<close>:
  the constructor assigns nothing to \<^verbatim>\<open>self.nlp_configuration\<close> (each of its three
  guards is false), and \<^verbatim>\<open>create_engine\<close> raises \<^verbatim>\<open>AttributeError\<close> at its first
  test, not the \<^verbatim>\<open>ValueError\<close> of an illegal configuration. For a provider whose
  attribute holds a dict (or \<^verbatim>\<open>None\<close>), \<open>illegal_configuration_raised\<close> and
  \<open>illegal_True_iff\<close> above give what the claim says.
\<close>
theorem empty_inline_configuration_raises_AttributeError:
  "provide (sample_imports Inr Inr) no_files None None (PDict []) =
     ([Log Debug (LoadedEngines [''spacy''])],
      Inl (AttributeError (quoted ''NlpEngineProvider'' @ '' object has no attribute ''
             @ quoted ''nlp_configuration'')))"
  by (simp add: provide_inline sample_registry create_engine_def run_defs)

text \<open>
  Claim C3, for arguments that are both true in Python's sense (an empty inline
  configuration or an empty path string does not count as given, see
  \<open>conflicting_sources_raised_counterexample\<close>). The constructor then raises the
  \<^verbatim>\<open>ValueError\<close> about the two sources, whatever the two contain, after a single debug
  log record and no file access, so the outcome is the same in every file system.
\<close>
theorem conflicting_sources_raised:
  assumes "conf_file_truthy cf" and "truthy c"
  shows "init imp w es cf c =
     ([Log Debug (LoadedEngines (map fst (build_registry (candidates imp es))))],
      Inl conflicting_sources) \<and>
     init imp w es cf c = init imp w' es cf c"
  using assms by (simp add: init_def Let_def run_defs)

theorem conflicting_sources_raised_witness:
  "init (sample_imports Inr Inr) no_files None (Some (StrPath ''conf.yaml'')) spacy_conf =
     ([Log Debug (LoadedEngines [''spacy''])], Inl conflicting_sources)"
proof -
  have 1: "conf_file_truthy (Some (StrPath ''conf.yaml''))" by simp
  have 2: "truthy spacy_conf" by (simp add: spacy_conf_def)
  note r = conflicting_sources_raised [OF 1 2, of "sample_imports Inr Inr" no_files None no_files,
    THEN conjunct1]
  then show ?thesis by (simp only: sample_registry list.map fst_conv)
qed

theorem conflicting_sources_raised_counterexample:
  "init (sample_imports Inr Inr) no_files None (Some (StrPath ''conf.yaml'')) (PDict []) =
     ([Log Debug (LoadedEngines [''spacy'']),
       PathExists (StrPath ''conf.yaml''),
       Log Warning (ConfFileNotFound (StrPath ''conf.yaml'') default_configuration),
       Log Warning MissingNerConf],
      Inr \<lparr>nlp_engines = [(''spacy'', sample_engine ''spacy'' True Inr)],
           nlp_configuration = Some default_configuration\<rparr>)"
proof -
  have 1: "conf_file_truthy (Some (StrPath ''conf.yaml''))" by simp
  have 2: "\<not> truthy (PDict [])" by simp
  have 3: "Path_exists no_files (StrPath ''conf.yaml'') = Inr False"
    by (rule Path_exists_no_files)
  show ?thesis
    by (simp add: init_file [OF 1 2] read_missing [OF 3] sample_registry)
qed

lemma create_engine_valid:
  assumes "nlp_configuration p = Some (PDict kvs)"
    and "map_of kvs ''models'' = Some models" and "truthy models"
    and "map_of kvs ''nlp_engine_name'' = Some (PStr s)" and "s \<noteq> []"
    and "map_of (nlp_engines p) s = Some cls"
  shows "create_engine imp p = except_KeyError (assemble imp (nlp_engines p) (PDict kvs) (HStr s))"
proof -
  from assms(2) have "kvs \<noteq> []" by auto
  with assms show ?thesis
    by (simp add: create_engine_def illegal_def run_defs)
qed

lemma assemble_registered:
  assumes "map_of kvs ''models'' = Some models"
    and "map_of registry s = Some cls"
  shows "assemble imp registry (PDict kvs) (HStr s) =
     (case ner_argument imp (PDict kvs) of
        Inl e \<Rightarrow> ([], Inl e)
      | Inr a \<Rightarrow>
          (case construct cls models a of
             Inl e \<Rightarrow> ([Construct (engine_name cls) models a], Inl e)
           | Inr eng \<Rightarrow>
               (case load cls eng of
                  Inl e \<Rightarrow> ([Construct (engine_name cls) models a, Load (engine_name cls)], Inl e)
                | Inr loaded \<Rightarrow>
                    (case nlp_keys cls loaded of
                       Inl e \<Rightarrow>
                         ([Construct (engine_name cls) models a, Load (engine_name cls)], Inl e)
                     | Inr keys \<Rightarrow>
                         ([Construct (engine_name cls) models a, Load (engine_name cls),
                           Log Info (CreatedEngine (engine_name cls) keys)], Inr loaded)))))"
  using assms by (simp add: assemble_def run_defs split: sum.splits)

lemma except_KeyError_Inl:
  "except_KeyError (t, Inl e) = (t, Inl (if is_KeyError e then wrong_configuration else e))"
  by (cases e) simp_all

lemma fst_except_KeyError: "fst (except_KeyError r) = fst r"
  by (cases r rule: except_KeyError.cases) simp_all

lemma ner_argument_dict:
  "ner_argument imp (PDict kvs) =
     (case map_of kvs ''ner_model_configuration'' of
        None \<Rightarrow> Inr (NerRaw PNone)
      | Some v \<Rightarrow>
          if truthy v
          then (case from_dict imp v of Inl e \<Rightarrow> Inl e | Inr n \<Rightarrow> Inr (NerParsed n))
          else Inr (NerRaw v))"
  by (simp add: ner_argument_def split: option.splits)

lemma construct_first:
  assumes "nlp_configuration p = Some (PDict kvs)"
    and "map_of kvs ''models'' = Some models" and "truthy models"
    and "map_of kvs ''nlp_engine_name'' = Some (PStr s)" and "s \<noteq> []"
    and "map_of (nlp_engines p) s = Some cls"
    and "ner_argument imp (PDict kvs) = Inr a"
  shows "\<exists>t. fst (create_engine imp p) = Construct (engine_name cls) models a # t"
  unfolding create_engine_valid [OF assms(1-6)] fst_except_KeyError
    assemble_registered [OF assms(2,6)]
  using assms(7) by (simp split: sum.splits)

lemma no_construct:
  assumes "nlp_configuration p = Some (PDict kvs)"
    and "map_of kvs ''models'' = Some models" and "truthy models"
    and "map_of kvs ''nlp_engine_name'' = Some (PStr s)" and "s \<noteq> []"
    and "map_of (nlp_engines p) s = Some cls"
    and "ner_argument imp (PDict kvs) = Inl e"
  shows "fst (create_engine imp p) = []"
  unfolding create_engine_valid [OF assms(1-6)] fst_except_KeyError
    assemble_registered [OF assms(2,6)]
  using assms(7) by simp




text \<open>
  Claim C6, for every error but a \<^verbatim>\<open>KeyError\<close> (the \<^verbatim>\<open>try\<close> statement encloses the
  call of \<^verbatim>\<open>load\<close>, see \<open>load_error_propagates_counterexample\<close>). When the
  configuration is valid, the engine is registered and constructed, and \<^verbatim>\<open>load\<close> raises
  \<open>err\<close>, then \<^verbatim>\<open>create_engine\<close> raises \<open>err\<close> itself after the constructor and
  the load have been called, unless \<open>err\<close> is a \<^verbatim>\<open>KeyError\<close>, which is replaced by
  the \<^verbatim>\<open>ValueError\<close> \<^verbatim>\<open>"Wrong NLP engine configuration"\<close>.
\<close>
theorem load_error_propagates:
  assumes "nlp_configuration p = Some (PDict kvs)"
    and "map_of kvs ''models'' = Some models" and "truthy models"
    and "map_of kvs ''nlp_engine_name'' = Some (PStr s)" and "s \<noteq> []"
    and "map_of (nlp_engines p) s = Some cls"
    and "ner_argument imp (PDict kvs) = Inr ner"
    and "construct cls models ner = Inr engine"
    and "load cls engine = Inl err"
  shows "create_engine imp p =
     ([Construct (engine_name cls) models ner, Load (engine_name cls)],
      Inl (if is_KeyError err then wrong_configuration else err))"
  unfolding create_engine_valid [OF assms(1-6)] assemble_registered [OF assms(2,6)]
  using assms(7-9) by (simp add: except_KeyError_Inl)

theorem load_error_propagates_witness:
  "create_engine (sample_imports Inr (fails (OtherError ''OSError'' ''model not found'')))
     \<lparr>nlp_engines =
        [(''spacy'', sample_engine ''spacy'' True (fails (OtherError ''OSError'' ''model not found'')))],
      nlp_configuration = Some spacy_conf\<rparr> =
   ([Construct ''spacy'' spacy_en (NerRaw PNone), Load ''spacy''],
    Inl (OtherError ''OSError'' ''model not found''))"
proof -
  let ?ld = "fails (OtherError ''OSError'' ''model not found'') ::
     pyval \<times> pyval ner_arg \<Rightarrow> py_exception + pyval \<times> pyval ner_arg"
  let ?cls = "sample_engine ''spacy'' True ?ld"
  let ?kvs = "[(''nlp_engine_name'', PStr ''spacy''), (''models'', spacy_en)]"
  let ?p = "\<lparr>nlp_engines = [(''spacy'', ?cls)], nlp_configuration = Some spacy_conf\<rparr>"
  have 1: "nlp_configuration ?p = Some (PDict ?kvs)" by (simp add: spacy_conf_def)
  have 2: "map_of ?kvs ''models'' = Some spacy_en" by simp
  have 3: "truthy spacy_en" by (simp add: spacy_en_def)
  have 4: "map_of ?kvs ''nlp_engine_name'' = Some (PStr ''spacy'')" by simp
  have 5: "''spacy'' \<noteq> []" by simp
  have 6: "map_of (nlp_engines ?p) ''spacy'' = Some ?cls" by simp
  have 7: "ner_argument (sample_imports Inr ?ld) (PDict ?kvs) = Inr (NerRaw PNone)"
    by (simp add: ner_argument_def)
  have 8: "construct ?cls spacy_en (NerRaw PNone) = Inr (spacy_en, NerRaw PNone)"
    by (simp add: sample_engine_def)
  have 9: "load ?cls (spacy_en, NerRaw PNone) = Inl (OtherError ''OSError'' ''model not found'')"
    by (simp add: sample_engine_def fails_def)
  have n: "engine_name ?cls = ''spacy''" by (simp add: sample_engine_def)
  note r = load_error_propagates [OF 1 2 3 4 5 6 7 8 9]
  then show ?thesis by (simp only: n is_KeyError.simps if_False)
qed

theorem load_error_propagates_counterexample:
  "load (sample_engine ''spacy'' True (fails (KeyError ''en''))) (spacy_en, NerRaw PNone) =
     Inl (KeyError ''en'') \<and>
   provide (sample_imports Inr (fails (KeyError ''en''))) no_files None None spacy_conf =
     ([Log Debug (LoadedEngines [''spacy'']),
       Construct ''spacy'' spacy_en (NerRaw PNone), Load ''spacy''],
      Inl (ValueError ''Wrong NLP engine configuration''))"
proof -
  have a: "load (sample_engine ''spacy'' True (fails (KeyError ''en''))) (spacy_en, NerRaw PNone) =
     Inl (KeyError ''en'')"
    by (simp add: sample_engine_def fails_def)
  have t: "truthy spacy_conf" "spacy_conf \<noteq> PNone" by (simp_all add: spacy_conf_def)
  have e: "spacy_en \<noteq> PList []" by (simp add: spacy_en_def)
  have b: "provide (sample_imports Inr (fails (KeyError ''en''))) no_files None None spacy_conf =
     ([Log Debug (LoadedEngines [''spacy'']),
       Construct ''spacy'' spacy_en (NerRaw PNone), Load ''spacy''],
      Inl (ValueError ''Wrong NLP engine configuration''))"
    using t e
    by (simp add: provide_inline sample_registry)
       (simp add: create_engine_def illegal_def assemble_def ner_argument_def run_defs
          spacy_conf_def sample_engine_def sample_imports_def fails_def wrong_configuration_def
          spacy_en_def)
  show ?thesis by (rule conjI [OF a b])
qed

text \<open>
  Claim C7. \<^verbatim>\<open>create_engine\<close> never raises a \<^verbatim>\<open>KeyError\<close>; and whenever the body of
  its \<^verbatim>\<open>try\<close> statement (the registry lookup, the lookup of the models, the parsing
  of the NER configuration, construction, load and the log record) raises one, the caller
  gets the \<^verbatim>\<open>ValueError\<close> \<^verbatim>\<open>"Wrong NLP engine configuration"\<close> instead, with the events
  that had occurred.
\<close>
theorem lookup_failure_normalised:
  "snd (create_engine imp p) \<noteq> Inl (KeyError m) \<and>
   (nlp_configuration p = Some conf \<and> illegal conf = Inr False \<and>
    py_getitem conf ''nlp_engine_name'' = Inr name \<and> py_hash name = Inr h \<and>
    has_key (nlp_engines p) h \<and>
    assemble imp (nlp_engines p) conf h = (t, Inl (KeyError m')) \<longrightarrow>
    create_engine imp p = (t, Inl wrong_configuration))"
proof -
  have a: "snd (create_engine imp p) \<noteq> Inl (KeyError m)"
    by (rule no_KeyError)
  have b: "nlp_configuration p = Some conf \<and> illegal conf = Inr False \<and>
    py_getitem conf ''nlp_engine_name'' = Inr name \<and> py_hash name = Inr h \<and>
    has_key (nlp_engines p) h \<and>
    assemble imp (nlp_engines p) conf h = (t, Inl (KeyError m')) \<longrightarrow>
    create_engine imp p = (t, Inl wrong_configuration)"
    by (simp add: create_engine_def run_defs)
  show ?thesis by (rule conjI [OF a b])
qed

theorem lookup_failure_normalised_witness:
  "create_engine (sample_imports (fails (KeyError ''model_to_entity_mapping'')) Inr)
     \<lparr>nlp_engines = [(''spacy'', sample_engine ''spacy'' True Inr)],
      nlp_configuration =
        Some (PDict [(''nlp_engine_name'', PStr ''spacy''), (''models'', spacy_en),
                     (''ner_model_configuration'', PDict [(''labels_to_ignore'', PList [])])])\<rparr> =
   ([], Inl wrong_configuration)"
proof -
  let ?imp = "sample_imports (fails (KeyError ''model_to_entity_mapping'')) Inr"
  let ?conf = "PDict [(''nlp_engine_name'', PStr ''spacy''), (''models'', spacy_en),
                     (''ner_model_configuration'', PDict [(''labels_to_ignore'', PList [])])]"
  let ?p = "\<lparr>nlp_engines = [(''spacy'', sample_engine ''spacy'' True Inr)],
      nlp_configuration = Some ?conf\<rparr>"
  have e: "truthy spacy_en" by (simp add: spacy_en_def)
  have h: "nlp_configuration ?p = Some ?conf \<and> illegal ?conf = Inr False \<and>
    py_getitem ?conf ''nlp_engine_name'' = Inr (PStr ''spacy'') \<and>
    py_hash (PStr ''spacy'') = Inr (HStr ''spacy'') \<and>
    has_key (nlp_engines ?p) (HStr ''spacy'') \<and>
    assemble ?imp (nlp_engines ?p) ?conf (HStr ''spacy'') =
      ([], Inl (KeyError ''model_to_entity_mapping''))"
    using e
    by (simp add: illegal_def assemble_def ner_argument_def run_defs sample_imports_def fails_def)
  show ?thesis
    by (rule lookup_failure_normalised [THEN conjunct2, THEN mp, OF h])
qed

text \<open>
  Claim C8, with the field absent, true or false (a field that is present but false, such
  as an empty mapping, is not parsed, see \<open>constructor_arguments_counterexample\<close>). For a
  valid configuration naming a registered engine, the first event of \<^verbatim>\<open>create_engine\<close>
  is the call of the constructor with the model list and: \<^verbatim>\<open>None\<close> when the field is
  absent; the result of \<^verbatim>\<open>NerModelConfiguration.from_dict\<close> when the field is true and
  parsing succeeds; the field's own value when it is false. When parsing raises, no
  constructor is called.
\<close>
theorem constructor_arguments:
  assumes "nlp_configuration p = Some (PDict kvs)"
    and "map_of kvs ''models'' = Some models" and "truthy models"
    and "map_of kvs ''nlp_engine_name'' = Some (PStr s)" and "s \<noteq> []"
    and "map_of (nlp_engines p) s = Some cls"
  shows "(map_of kvs ''ner_model_configuration'' = None \<longrightarrow>
            (\<exists>t. fst (create_engine imp p) =
               Construct (engine_name cls) models (NerRaw PNone) # t)) \<and>
         (map_of kvs ''ner_model_configuration'' = Some v \<and> truthy v \<and>
            from_dict imp v = Inr n \<longrightarrow>
            (\<exists>t. fst (create_engine imp p) =
               Construct (engine_name cls) models (NerParsed n) # t)) \<and>
         (map_of kvs ''ner_model_configuration'' = Some v \<and> truthy v \<and>
            from_dict imp v = Inl e \<longrightarrow>
            fst (create_engine imp p) = []) \<and>
         (map_of kvs ''ner_model_configuration'' = Some v \<and> \<not> truthy v \<longrightarrow>
            (\<exists>t. fst (create_engine imp p) =
               Construct (engine_name cls) models (NerRaw v) # t))"
proof -
  have a: "map_of kvs ''ner_model_configuration'' = None \<longrightarrow>
            (\<exists>t. fst (create_engine imp p) =
               Construct (engine_name cls) models (NerRaw PNone) # t)"
  proof
    assume "map_of kvs ''ner_model_configuration'' = None"
    then have "ner_argument imp (PDict kvs) = Inr (NerRaw PNone)"
      by (simp add: ner_argument_dict)
    then show "\<exists>t. fst (create_engine imp p) =
               Construct (engine_name cls) models (NerRaw PNone) # t"
      by (rule construct_first [OF assms])
  qed
  have b: "map_of kvs ''ner_model_configuration'' = Some v \<and> truthy v \<and>
            from_dict imp v = Inr n \<longrightarrow>
            (\<exists>t. fst (create_engine imp p) =
               Construct (engine_name cls) models (NerParsed n) # t)"
  proof
    assume "map_of kvs ''ner_model_configuration'' = Some v \<and> truthy v \<and>
            from_dict imp v = Inr n"
    then have "ner_argument imp (PDict kvs) = Inr (NerParsed n)"
      by (simp add: ner_argument_dict)
    then show "\<exists>t. fst (create_engine imp p) =
               Construct (engine_name cls) models (NerParsed n) # t"
      by (rule construct_first [OF assms])
  qed
  have c: "map_of kvs ''ner_model_configuration'' = Some v \<and> truthy v \<and>
            from_dict imp v = Inl e \<longrightarrow> fst (create_engine imp p) = []"
  proof
    assume "map_of kvs ''ner_model_configuration'' = Some v \<and> truthy v \<and>
            from_dict imp v = Inl e"
    then have "ner_argument imp (PDict kvs) = Inl e"
      by (simp add: ner_argument_dict)
    then show "fst (create_engine imp p) = []"
      by (rule no_construct [OF assms])
  qed
  have d: "map_of kvs ''ner_model_configuration'' = Some v \<and> \<not> truthy v \<longrightarrow>
            (\<exists>t. fst (create_engine imp p) =
               Construct (engine_name cls) models (NerRaw v) # t)"
  proof
    assume "map_of kvs ''ner_model_configuration'' = Some v \<and> \<not> truthy v"
    then have "ner_argument imp (PDict kvs) = Inr (NerRaw v)"
      by (simp add: ner_argument_dict)
    then show "\<exists>t. fst (create_engine imp p) =
               Construct (engine_name cls) models (NerRaw v) # t"
      by (rule construct_first [OF assms])
  qed
  show ?thesis by (rule conjI [OF a conjI [OF b conjI [OF c d]]])
qed

theorem constructor_arguments_witness:
  "\<exists>t. fst (create_engine (sample_imports Inr Inr)
     \<lparr>nlp_engines = [(''spacy'', sample_engine ''spacy'' True Inr)],
      nlp_configuration =
        Some (PDict [(''nlp_engine_name'', PStr ''spacy''), (''models'', spacy_en),
                     (''ner_model_configuration'', PDict [(''labels_to_ignore'', PList [])])])\<rparr>) =
     Construct ''spacy'' spacy_en (NerParsed (PDict [(''labels_to_ignore'', PList [])])) # t"
proof -
  let ?kvs = "[(''nlp_engine_name'', PStr ''spacy''), (''models'', spacy_en),
                     (''ner_model_configuration'', PDict [(''labels_to_ignore'', PList [])])]"
  let ?cls = "sample_engine ''spacy'' True Inr ::
     (pyval \<times> pyval ner_arg, pyval) engine_class"
  let ?p = "\<lparr>nlp_engines = [(''spacy'', ?cls)], nlp_configuration = Some (PDict ?kvs)\<rparr>"
  have 1: "nlp_configuration ?p = Some (PDict ?kvs)" by simp
  have 2: "map_of ?kvs ''models'' = Some spacy_en" by simp
  have 3: "truthy spacy_en" by (simp add: spacy_en_def)
  have 4: "map_of ?kvs ''nlp_engine_name'' = Some (PStr ''spacy'')" by simp
  have 5: "''spacy'' \<noteq> []" by simp
  have 6: "map_of (nlp_engines ?p) ''spacy'' = Some ?cls" by simp
  have 7: "map_of ?kvs ''ner_model_configuration'' = Some (PDict [(''labels_to_ignore'', PList [])]) \<and>
     truthy (PDict [(''labels_to_ignore'', PList [])]) \<and>
     from_dict (sample_imports Inr Inr) (PDict [(''labels_to_ignore'', PList [])]) =
       Inr (PDict [(''labels_to_ignore'', PList [])])"
    by (simp add: sample_imports_def)
  have n: "engine_name ?cls = ''spacy''" by (simp add: sample_engine_def)
  note r = constructor_arguments [OF 1 2 3 4 5 6, THEN conjunct2, THEN conjunct1, THEN mp, OF 7]
  then show ?thesis by (simp only: n)
qed

theorem constructor_arguments_counterexample:
  "py_contains ''ner_model_configuration''
     (PDict [(''nlp_engine_name'', PStr ''spacy''), (''models'', spacy_en),
             (''ner_model_configuration'', PDict [])]) = Inr True \<and>
   provide (sample_imports Inr Inr) no_files None None
     (PDict [(''nlp_engine_name'', PStr ''spacy''), (''models'', spacy_en),
             (''ner_model_configuration'', PDict [])]) =
     ([Log Debug (LoadedEngines [''spacy'']),
       Construct ''spacy'' spacy_en (NerRaw (PDict [])), Load ''spacy'',
       Log Info (CreatedEngine ''spacy'' [''en''])],
      Inr (spacy_en, NerRaw (PDict [])))"
proof -
  have a: "py_contains ''ner_model_configuration''
     (PDict [(''nlp_engine_name'', PStr ''spacy''), (''models'', spacy_en),
             (''ner_model_configuration'', PDict [])]) = Inr True"
    by simp
  have e: "truthy spacy_en" by (simp add: spacy_en_def)
  have b: "provide (sample_imports Inr Inr) no_files None None
     (PDict [(''nlp_engine_name'', PStr ''spacy''), (''models'', spacy_en),
             (''ner_model_configuration'', PDict [])]) =
     ([Log Debug (LoadedEngines [''spacy'']),
       Construct ''spacy'' spacy_en (NerRaw (PDict [])), Load ''spacy'',
       Log Info (CreatedEngine ''spacy'' [''en''])],
      Inr (spacy_en, NerRaw (PDict [])))"
    using e
    by (simp add: provide_inline sample_registry)
       (simp add: create_engine_def illegal_def assemble_def ner_argument_def run_defs
          sample_engine_def sample_imports_def)
  show ?thesis by (rule conjI [OF a b])
qed

lemma empty_inline_configuration_not_adopted:
  "init (sample_imports Inr Inr) no_files None None (PDict []) =
     ([Log Debug (LoadedEngines [''spacy''])],
      Inr \<lparr>nlp_engines = [(''spacy'', sample_engine ''spacy'' True Inr)],
           nlp_configuration = None\<rparr>)"
  by (simp add: init_inline sample_registry)



end
